theory Spec2Isabelle
  imports Complex_Main
begin

section \<open>Double-precision arithmetic\<close>

text \<open>
  The script computes with Python floats (IEEE 754 binary64). A finite double is a
  rational; every arithmetic operation returns the exact result rounded to the nearest
  double, ties to even. Only finite values of moderate size occur in the computations
  modelled here, so overflow to infinity is left out; gradual underflow is kept
  (the exponent is clamped at -1022).
\<close>

fun bit_length :: "nat \<Rightarrow> nat" where
  "bit_length n = (if n = 0 then 0 else Suc (bit_length (n div 2)))"

declare bit_length.simps [simp del]

definition pow2 :: "int \<Rightarrow> rat" where
  "pow2 e = (if 0 \<le> e then 2 ^ nat e else 1 / 2 ^ nat (- e))"

definition exponent :: "rat \<Rightarrow> int" where
  \<comment> \<open>for \<open>0 < x\<close>: the \<open>e\<close> with \<open>2 ^ e \<le> x < 2 ^ (e + 1)\<close>\<close>
  "exponent x =
     (if 1 \<le> x then int (bit_length (nat \<lfloor>x\<rfloor>)) - 1
      else - int (bit_length (nat (\<lceil>1 / x\<rceil> - 1))))"

definition nearest_even :: "int \<Rightarrow> rat \<Rightarrow> int" where
  \<comment> \<open>\<open>f\<close> is the floor of \<open>m\<close> and \<open>d\<close> the rest; a tie goes to the even neighbour\<close>
  "nearest_even f d =
     (if d < 1 / 2 then f
      else if 1 / 2 < d then f + 1
      else if even f then f else f + 1)"

definition round_half_even :: "rat \<Rightarrow> int" where
  "round_half_even m = nearest_even \<lfloor>m\<rfloor> (m - of_int \<lfloor>m\<rfloor>)"

definition round_to_multiple :: "rat \<Rightarrow> rat \<Rightarrow> rat" where
  "round_to_multiple a u = of_int (round_half_even (a / u)) * u"

definition fl :: "rat \<Rightarrow> rat" where
  \<comment> \<open>the nearest double: 53 significant bits\<close>
  "fl x =
     (if x = 0 then 0
      else sgn x * round_to_multiple \<bar>x\<bar> (pow2 (max (exponent \<bar>x\<bar>) (- 1022) - 52)))"

definition fadd :: "rat \<Rightarrow> rat \<Rightarrow> rat" where
  "fadd a b = fl (a + b)"

definition fsub :: "rat \<Rightarrow> rat \<Rightarrow> rat" where
  "fsub a b = fl (a - b)"

definition fmul :: "rat \<Rightarrow> rat \<Rightarrow> rat" where
  "fmul a b = fl (a * b)"

definition fdiv :: "rat \<Rightarrow> rat \<Rightarrow> rat" where
  "fdiv a b = fl (a / b)"

definition float_of_int :: "int \<Rightarrow> rat" where
  \<comment> \<open>Python converts the int operand of a mixed \<open>int * float\<close> to float\<close>
  "float_of_int n = fl (of_int n)"

definition py_int :: "rat \<Rightarrow> int" where
  \<comment> \<open>\<open>int(x)\<close> on a float truncates towards zero\<close>
  "py_int x = (if 0 \<le> x then \<lfloor>x\<rfloor> else \<lceil>x\<rceil>)"

section \<open>The synthetic confusion matrix of \<open>create_model_performance_chart\<close>\<close>

text \<open>
  Lines 275 to 282 of the script:
  \<^verbatim>\<open>
    total_test = 1000
    actual_churn = int(total_test * 0.265)
    predicted_churn = int(actual_churn * 0.819 + (total_test - actual_churn) * 0.132)
    true_positive = int(actual_churn * 0.819)
    false_negative = actual_churn - true_positive
    false_positive = predicted_churn - true_positive
    true_negative = total_test - actual_churn - false_positive
  \<close>
  Integers are Python's unbounded ints; float literals are the doubles nearest to the
  written decimals.
\<close>

definition total_test :: int where
  "total_test = 1000"

definition actual_churn :: int where
  "actual_churn = py_int (fmul (float_of_int total_test) (fl (265 / 1000)))"

definition predicted_churn :: int where
  "predicted_churn =
     py_int (fadd (fmul (float_of_int actual_churn) (fl (819 / 1000)))
                  (fmul (float_of_int (total_test - actual_churn)) (fl (132 / 1000))))"

definition true_positive :: int where
  "true_positive = py_int (fmul (float_of_int actual_churn) (fl (819 / 1000)))"

definition false_negative :: int where
  "false_negative = actual_churn - true_positive"

definition false_positive :: int where
  "false_positive = predicted_churn - true_positive"

definition true_negative :: int where
  "true_negative = total_test - actual_churn - false_positive"

definition confusion_data :: "int list list" where
  "confusion_data = [[true_negative, false_positive], [false_negative, true_positive]]"

section \<open>Exceptions, console and generator state\<close>

text \<open>
  Every exception the modelled code can raise is an instance of Python's \<open>Exception\<close>,
  which is what the two \<open>except Exception\<close> handlers of the script catch.
\<close>

datatype exn =
    FileNotFoundError
  | ParserError
  | KeyError string
  | TypeError
  | ValueError string
  | IndexError
  | RuntimeError string

text \<open>
  The console is the list of lines printed so far. A line is recorded by what it
  reports, with the values its f-string interpolates, not by its decorated text.
\<close>

datatype event =
    Loading_data                    \<comment> \<open>line 49\<close>
  | Dataset_loaded nat nat          \<comment> \<open>line 54: rows, columns\<close>
  | Preparation_completed           \<comment> \<open>line 103\<close>
  | Error_loading_data exn          \<comment> \<open>line 107\<close>
  | Creating_executive_dashboard    \<comment> \<open>line 114\<close>
  | Executive_dashboard_saved       \<comment> \<open>line 214\<close>
  | Creating_model_performance      \<comment> \<open>line 220\<close>
  | Model_performance_saved         \<comment> \<open>line 324\<close>
  | Creating_customer_segmentation  \<comment> \<open>line 330\<close>
  | Customer_segmentation_saved     \<comment> \<open>line 435\<close>
  | Banner                          \<comment> \<open>lines 441 to 443\<close>
  | Failed_to_load_exiting          \<comment> \<open>line 448\<close>
  | All_generated                   \<comment> \<open>lines 457 to 466\<close>
  | Error_generating exn            \<comment> \<open>line 469\<close>

record 'g world =
  console :: "event list"
  rng :: 'g  \<comment> \<open>the state of NumPy's global generator\<close>

type_synonym ('g, 'a) io = "'g world \<Rightarrow> (exn + 'a) \<times> 'g world"

definition return_io :: "'a \<Rightarrow> ('g, 'a) io" where
  "return_io x = (\<lambda>w. (Inr x, w))"

definition raise_io :: "exn \<Rightarrow> ('g, 'a) io" where
  "raise_io e = (\<lambda>w. (Inl e, w))"

definition bind_io :: "('g, 'a) io \<Rightarrow> ('a \<Rightarrow> ('g, 'b) io) \<Rightarrow> ('g, 'b) io" where
  "bind_io m f = (\<lambda>w. case m w of (Inl e, w') \<Rightarrow> (Inl e, w') | (Inr x, w') \<Rightarrow> f x w')"

definition try_except :: "('g, 'a) io \<Rightarrow> (exn \<Rightarrow> ('g, 'a) io) \<Rightarrow> ('g, 'a) io" where
  \<comment> \<open>\<open>try: m  except Exception as e: h e\<close>\<close>
  "try_except m h = (\<lambda>w. case m w of (Inl e, w') \<Rightarrow> h e w' | (Inr x, w') \<Rightarrow> (Inr x, w'))"

definition lift_io :: "exn + 'a \<Rightarrow> ('g, 'a) io" where
  "lift_io r = (case r of Inl e \<Rightarrow> raise_io e | Inr x \<Rightarrow> return_io x)"

definition print_io :: "event \<Rightarrow> ('g, unit) io" where
  "print_io ev = (\<lambda>w. (Inr (), w\<lparr>console := console w @ [ev]\<rparr>))"

section \<open>The table\<close>

text \<open>
  A float64 cell is a finite value, an infinity or NaN (a missing value).
  A DataFrame is its row count and its columns in order, each under a unique name.
  \<open>read_csv\<close> gives numeric columns (int64, float64) and object columns (text);
  the derived columns are a categorical (labels or missing), an int64 and an object column.
\<close>

datatype f64 = NaN | NegInf | Fin rat | PosInf

datatype column =
    Float64 "f64 list"
  | Int64 "int list"
  | Object "string option list"
  | Categorical "string option list"

record table =
  nrows :: nat
  columns :: "(string \<times> column) list"

definition getitem :: "table \<Rightarrow> string \<Rightarrow> exn + column" where
  \<comment> \<open>\<open>df[name]\<close>\<close>
  "getitem df name =
     (case map_of (columns df) name of None \<Rightarrow> Inl (KeyError name) | Some c \<Rightarrow> Inr c)"

fun assign :: "(string \<times> column) list \<Rightarrow> string \<Rightarrow> column \<Rightarrow> (string \<times> column) list" where
  "assign [] name c = [(name, c)]"
| "assign ((k, v) # cs) name c = (if k = name then (k, c) # cs else (k, v) # assign cs name c)"

definition setitem :: "table \<Rightarrow> string \<Rightarrow> column \<Rightarrow> table" where
  \<comment> \<open>\<open>df[name] = c\<close>: replaces the column of that name, or appends a new last column\<close>
  "setitem df name c = df\<lparr>columns := assign (columns df) name c\<rparr>"

section \<open>\<open>pd.cut\<close> with explicit bins and labels\<close>

text \<open>
  The script calls \<open>pd.cut(series, bins=[...], labels=[...])\<close> with the defaults
  \<open>right=True\<close> and \<open>include_lowest=False\<close>. pandas then computes, for every value,
  \<open>ids = bins.searchsorted(x, side='left')\<close>, marks the value missing when it is NaN,
  when \<open>ids = 0\<close> or when \<open>ids = len(bins)\<close>, and otherwise takes \<open>labels[ids - 1]\<close>.
  \<open>searchsorted\<close> with \<open>side='left'\<close> on increasing bins returns the first index
  \<open>i\<close> whose bin edge is not below \<open>x\<close>; NaN sorts after every number.
\<close>

fun edge_below :: "rat \<Rightarrow> f64 \<Rightarrow> bool" where
  "edge_below b NaN = True"
| "edge_below b NegInf = False"
| "edge_below b (Fin v) = (b < v)"
| "edge_below b PosInf = True"

definition searchsorted_left :: "rat list \<Rightarrow> f64 \<Rightarrow> nat" where
  "searchsorted_left bins x = length (takeWhile (\<lambda>b. edge_below b x) bins)"

definition isna :: "f64 \<Rightarrow> bool" where
  "isna x = (x = NaN)"

definition cut_value :: "rat list \<Rightarrow> string list \<Rightarrow> f64 \<Rightarrow> string option" where
  "cut_value bins labels x =
     (let ids = searchsorted_left bins x
      in if isna x \<or> ids = length bins \<or> ids = 0 then None
         else Some (labels ! (ids - 1)))"

fun increasing :: "rat list \<Rightarrow> bool" where
  "increasing (a # b # bs) = (a < b \<and> increasing (b # bs))"
| "increasing _ = True"

definition pd_cut :: "column \<Rightarrow> rat list \<Rightarrow> string list \<Rightarrow> exn + column" where
  "pd_cut x bins labels =
     (if \<not> increasing bins then Inl (ValueError ''bins must increase monotonically.'')
      else if length labels + 1 \<noteq> length bins
      then Inl (ValueError ''Bin labels must be one fewer than the number of bin edges'')
      else case x of
             Float64 vs \<Rightarrow> Inr (Categorical (map (cut_value bins labels) vs))
           | Int64 ns \<Rightarrow> Inr (Categorical (map (\<lambda>n. cut_value bins labels (Fin (of_int n))) ns))
           | Object _ \<Rightarrow> Inl TypeError
           | Categorical _ \<Rightarrow> Inl TypeError)"

section \<open>\<open>np.random.seed\<close> and \<open>np.random.choice\<close>\<close>

text \<open>
  NumPy's generator is not part of the script: it is a parameter, a seeding function
  and \<open>random_sample\<close>, which returns \<open>n\<close> doubles from the generator's state together
  with the state that follows. \<open>np.random.choice(a, size=n, p=p)\<close> checks \<open>p\<close>
  (same length as \<open>a\<close>, no negative entry, compensated sum within \<open>sqrt(eps)\<close> of 1),
  normalises the running sums of \<open>p\<close> by the last one, draws \<open>n\<close> uniform samples and
  returns \<open>a[i]\<close> for \<open>i = cdf.searchsorted(u, side='right')\<close>, the first index whose
  entry is above \<open>u\<close>.
\<close>

record 'g np_random =
  seed :: "nat \<Rightarrow> 'g"
  random_sample :: "'g \<Rightarrow> nat \<Rightarrow> rat list \<times> 'g"

definition kahan_update :: "rat \<Rightarrow> rat \<Rightarrow> rat \<Rightarrow> rat \<times> rat" where
  \<comment> \<open>\<open>c = (t - sum) - y; sum = t\<close>\<close>
  "kahan_update s y t = (t, fsub (fsub t s) y)"

definition kahan_add :: "rat \<Rightarrow> rat \<Rightarrow> rat \<times> rat" where
  \<comment> \<open>\<open>t = sum + y\<close>\<close>
  "kahan_add s y = kahan_update s y (fadd s y)"

fun kahan_step :: "rat \<times> rat \<Rightarrow> rat \<Rightarrow> rat \<times> rat" where
  \<comment> \<open>one round of the loop, on the pair of \<open>sum\<close> and \<open>c\<close>: \<open>y = darr[i] - c\<close>\<close>
  "kahan_step (s, c) d = kahan_add s (fsub d c)"

definition kahan_sum :: "rat list \<Rightarrow> rat" where
  "kahan_sum darr = (case darr of [] \<Rightarrow> 0 | d # ds \<Rightarrow> fst (foldl kahan_step (d, 0) ds))"

fun cumsum_from :: "rat \<Rightarrow> rat list \<Rightarrow> rat list" where
  "cumsum_from acc [] = [acc]"
| "cumsum_from acc (x # xs) = acc # cumsum_from (fadd acc x) xs"

definition cumsum :: "rat list \<Rightarrow> rat list" where
  "cumsum p = (case p of [] \<Rightarrow> [] | x # xs \<Rightarrow> cumsum_from x xs)"

definition atol :: rat where
  \<comment> \<open>\<open>sqrt(finfo(float64).eps)\<close>, the square root of \<open>2 ^ -52\<close>\<close>
  "atol = pow2 (- 26)"

definition divide_all :: "rat list \<Rightarrow> rat \<Rightarrow> rat list" where
  "divide_all cdf z = map (\<lambda>c. fdiv c z) cdf"

definition normalised_cdf :: "rat list \<Rightarrow> rat list" where
  \<comment> \<open>\<open>cdf = p.cumsum(); cdf /= cdf[-1]\<close>\<close>
  "normalised_cdf p = divide_all (cumsum p) (last (cumsum p))"

definition searchsorted_right :: "rat list \<Rightarrow> rat \<Rightarrow> nat" where
  "searchsorted_right cdf u = length (takeWhile (\<lambda>c. c \<le> u) cdf)"

definition take_at :: "int list \<Rightarrow> nat \<Rightarrow> exn + int" where
  \<comment> \<open>\<open>a[i]\<close>\<close>
  "take_at a i = (if i < length a then Inr (a ! i) else Inl IndexError)"

fun take_all :: "int list \<Rightarrow> nat list \<Rightarrow> exn + int list" where
  "take_all a [] = Inr []"
| "take_all a (i # is) =
     (case take_at a i of
        Inl e \<Rightarrow> Inl e
      | Inr x \<Rightarrow> (case take_all a is of Inl e \<Rightarrow> Inl e | Inr xs \<Rightarrow> Inr (x # xs)))"

definition check_p :: "int list \<Rightarrow> nat \<Rightarrow> rat list \<Rightarrow> exn option" where
  "check_p a n p =
     (if length a = 0 \<and> n \<noteq> 0
      then Some (ValueError ''a cannot be empty unless no samples are taken'')
      else if length p \<noteq> length a
      then Some (ValueError ''a and p must have same size'')
      else if list_ex (\<lambda>x. x < 0) p
      then Some (ValueError ''probabilities are not non-negative'')
      else if atol < \<bar>fsub (kahan_sum p) 1\<bar>
      then Some (ValueError ''probabilities do not sum to 1'')
      else None)"

definition np_random_seed :: "'g np_random \<Rightarrow> nat \<Rightarrow> ('g, unit) io" where
  "np_random_seed R s = (\<lambda>w. (Inr (), w\<lparr>rng := seed R s\<rparr>))"

definition np_random_choice ::
  "'g np_random \<Rightarrow> int list \<Rightarrow> nat \<Rightarrow> rat list \<Rightarrow> ('g, int list) io" where
  "np_random_choice R a n p =
     (\<lambda>w. case check_p a n p of
             Some e \<Rightarrow> (Inl e, w)
           | None \<Rightarrow>
               (let cdf = normalised_cdf p;
                    (uniform_samples, g) = random_sample R (rng w) n;
                    idx = map (searchsorted_right cdf) uniform_samples
                in (take_all a idx, w\<lparr>rng := g\<rparr>)))"

section \<open>\<open>load_and_prepare_data\<close>\<close>

text \<open>
  The dictionaries of lines 77 to 83 and 93 to 99, in insertion order. The display
  names begin with an emoji; a name is written here as its UTF-8 bytes.
\<close>

definition cluster_decimals :: "(int \<times> rat) list" where
  \<comment> \<open>the dictionary as it is written\<close>
  "cluster_decimals =
     [(0, 158 / 1000), (1, 222 / 1000), (2, 216 / 1000), (3, 307 / 1000), (4, 97 / 1000)]"

definition cluster_probabilities :: "(int \<times> rat) list" where
  \<comment> \<open>the dictionary as Python holds it: every literal is the nearest double\<close>
  "cluster_probabilities = map (\<lambda>(k, d). (k, fl d)) cluster_decimals"

definition archetype_list :: "(int \<times> string) list" where
  "archetype_list =
     [(0, [CHR 0xF0, CHR 0x9F, CHR 0xA4, CHR 0x9D] @ '' Social Connectors''),
      (1, [CHR 0xE2, CHR 0x9A, CHR 0xA1] @ '' Active Independents''),
      (2, [CHR 0xF0, CHR 0x9F, CHR 0x8F, CHR 0x86] @ '' Premium Loyalists''),
      (3, [CHR 0xF0, CHR 0x9F, CHR 0x9A, CHR 0xA8] @ '' Flight Risks''),
      (4, [CHR 0xF0, CHR 0x9F, CHR 0x8E, CHR 0xB2] @ '' Decision Pending'')]"

definition archetype_names :: "int \<rightharpoonup> string" where
  "archetype_names = map_of archetype_list"

definition value_tier_bins :: "rat list" where
  "value_tier_bins = [0, 100, 200, 300, 600]"

definition value_tier_labels :: "string list" where
  "value_tier_labels = [''Basic'', ''Standard'', ''Premium'', ''VIP'']"

definition activity_bins :: "rat list" where
  "activity_bins = [0, 1, 2, 3, 10]"

definition activity_labels :: "string list" where
  "activity_labels = [''Low'', ''Moderate'', ''High'', ''Super Active'']"

definition tenure_bins :: "rat list" where
  "tenure_bins = [0, 3, 6, 12, 50]"

definition tenure_labels :: "string list" where
  "tenure_labels =
     [''New (0-3m)'', ''Developing (3-6m)'', ''Established (6-12m)'', ''Veteran (12m+)'']"

definition add_band ::
  "string \<Rightarrow> string \<Rightarrow> rat list \<Rightarrow> string list \<Rightarrow> table \<Rightarrow> exn + table" where
  \<comment> \<open>\<open>df[new] = pd.cut(df[src], bins=bins, labels=labels)\<close>\<close>
  "add_band new src bins labels df =
     (case getitem df src of
        Inl e \<Rightarrow> Inl e
      | Inr x \<Rightarrow> (case pd_cut x bins labels of
                    Inl e \<Rightarrow> Inl e
                  | Inr c \<Rightarrow> Inr (setitem df new c)))"

definition series_map :: "column \<Rightarrow> (int \<rightharpoonup> string) \<Rightarrow> exn + column" where
  \<comment> \<open>\<open>series.map(dict)\<close> on an integer column: a key that is absent gives a missing value.
      The script maps the integer column it has just assigned; no other kind is looked up.\<close>
  "series_map x d =
     (case x of Int64 ks \<Rightarrow> Inr (Object (map d ks)) | _ \<Rightarrow> Inl TypeError)"

definition add_archetype :: "table \<Rightarrow> exn + table" where
  \<comment> \<open>line 101: \<open>df['Archetype'] = df['Cluster'].map(archetype_names)\<close>\<close>
  "add_archetype df =
     (case getitem df ''Cluster'' of
        Inl e \<Rightarrow> Inl e
      | Inr x \<Rightarrow> (case series_map x archetype_names of
                    Inl e \<Rightarrow> Inl e
                  | Inr c \<Rightarrow> Inr (setitem df ''Archetype'' c)))"

definition load_body ::
  "'g np_random \<Rightarrow> exn + table \<Rightarrow> ('g, table \<times> (int \<rightharpoonup> string)) io" where
  \<comment> \<open>the \<open>try\<close> block, lines 52 to 104; \<open>csv\<close> is what \<open>pd.read_csv\<close> returns or raises\<close>
  "load_body R csv =
     bind_io (lift_io csv) (\<lambda>df.
     bind_io (print_io (Dataset_loaded (nrows df) (length (columns df)))) (\<lambda>_.
     bind_io (lift_io (add_band ''customer_value_tier'' ''Avg_additional_charges_total''
                         value_tier_bins value_tier_labels df)) (\<lambda>df.
     bind_io (lift_io (add_band ''activity_level'' ''Avg_class_frequency_current_month''
                         activity_bins activity_labels df)) (\<lambda>df.
     bind_io (lift_io (add_band ''tenure_category'' ''Lifetime''
                         tenure_bins tenure_labels df)) (\<lambda>df.
     bind_io (np_random_seed R 42) (\<lambda>_.
     bind_io (np_random_choice R (map fst cluster_probabilities) (nrows df)
                (map snd cluster_probabilities)) (\<lambda>clusters.
     bind_io (lift_io (add_archetype (setitem df ''Cluster'' (Int64 clusters)))) (\<lambda>df.
     bind_io (print_io Preparation_completed) (\<lambda>_.
     return_io (df, archetype_names))))))))))"

definition load_and_prepare_data ::
  "'g np_random \<Rightarrow> exn + table \<Rightarrow> ('g, (table \<times> (int \<rightharpoonup> string)) option) io" where
  \<comment> \<open>\<open>None\<close> is the pair \<open>(None, None)\<close> the handler returns\<close>
  "load_and_prepare_data R csv =
     bind_io (print_io Loading_data) (\<lambda>_.
     try_except (bind_io (load_body R csv) (\<lambda>r. return_io (Some r)))
       (\<lambda>e. bind_io (print_io (Error_loading_data e)) (\<lambda>_. return_io None)))"

section \<open>The chart builders and \<open>main\<close>\<close>

text \<open>
  What a builder draws is matplotlib's business. A builder prints its opening line,
  then either an exception escapes it or it prints its closing line; which of the two
  happens for a given table is a parameter.
\<close>

record builders =
  executive_dashboard_raises :: "table \<Rightarrow> exn option"
  model_performance_raises :: "table \<Rightarrow> exn option"
  customer_segmentation_raises :: "table \<Rightarrow> (int \<rightharpoonup> string) \<Rightarrow> exn option"

definition builder :: "event \<Rightarrow> exn option \<Rightarrow> event \<Rightarrow> ('g, unit) io" where
  "builder opening outcome closing =
     bind_io (print_io opening) (\<lambda>_.
       case outcome of Some e \<Rightarrow> raise_io e | None \<Rightarrow> print_io closing)"

definition create_executive_dashboard :: "builders \<Rightarrow> table \<Rightarrow> ('g, unit) io" where
  "create_executive_dashboard B df =
     builder Creating_executive_dashboard (executive_dashboard_raises B df)
       Executive_dashboard_saved"

definition create_model_performance_chart :: "builders \<Rightarrow> table \<Rightarrow> ('g, unit) io" where
  "create_model_performance_chart B df =
     builder Creating_model_performance (model_performance_raises B df)
       Model_performance_saved"

definition create_customer_segmentation_chart ::
  "builders \<Rightarrow> table \<Rightarrow> (int \<rightharpoonup> string) \<Rightarrow> ('g, unit) io" where
  "create_customer_segmentation_chart B df names =
     builder Creating_customer_segmentation (customer_segmentation_raises B df names)
       Customer_segmentation_saved"

definition generate_all :: "builders \<Rightarrow> table \<Rightarrow> (int \<rightharpoonup> string) \<Rightarrow> ('g, unit) io" where
  \<comment> \<open>the \<open>try\<close> block of \<open>main\<close>, lines 453 to 466\<close>
  "generate_all B df names =
     bind_io (create_executive_dashboard B df) (\<lambda>_.
     bind_io (create_model_performance_chart B df) (\<lambda>_.
     bind_io (create_customer_segmentation_chart B df names) (\<lambda>_.
     print_io All_generated)))"

definition main :: "'g np_random \<Rightarrow> exn + table \<Rightarrow> builders \<Rightarrow> ('g, unit) io" where
  "main R csv B =
     bind_io (print_io Banner) (\<lambda>_.
     bind_io (load_and_prepare_data R csv) (\<lambda>r.
       case r of
         None \<Rightarrow> bind_io (print_io Failed_to_load_exiting) (\<lambda>_. return_io ())
       | Some (df, names) \<Rightarrow>
           try_except (generate_all B df names) (\<lambda>e. print_io (Error_generating e))))"

section \<open>The three bands, cell by cell\<close>

abbreviation customer_value_tier :: "f64 \<Rightarrow> string option" where
  "customer_value_tier \<equiv> cut_value value_tier_bins value_tier_labels"

abbreviation activity_level :: "f64 \<Rightarrow> string option" where
  "activity_level \<equiv> cut_value activity_bins activity_labels"

abbreviation tenure_category :: "f64 \<Rightarrow> string option" where
  "tenure_category \<equiv> cut_value tenure_bins tenure_labels"

section \<open>Auxiliary notions for the statements\<close>

definition draw_clusters :: "'g np_random \<Rightarrow> nat \<Rightarrow> exn + int list" where
  \<comment> \<open>what lines 76 to 89 assign to \<open>clusters\<close> for a table of \<open>n\<close> rows: the generator
      is seeded with 42 and the ids are taken at the positions of the uniform samples\<close>
  "draw_clusters R n =
     take_all (map fst cluster_probabilities)
       (map (searchsorted_right (normalised_cdf (map snd cluster_probabilities)))
          (fst (random_sample R (seed R 42) n)))"

definition cluster_of_uniform :: "rat \<Rightarrow> exn + int" where
  \<comment> \<open>the id \<open>np.random.choice\<close> returns for one uniform sample\<close>
  "cluster_of_uniform u =
     take_at (map fst cluster_probabilities)
       (searchsorted_right (normalised_cdf (map snd cluster_probabilities)) u)"

fun chart_event :: "event \<Rightarrow> bool" where
  \<comment> \<open>the lines only a chart builder prints\<close>
  "chart_event Creating_executive_dashboard = True"
| "chart_event Executive_dashboard_saved = True"
| "chart_event Creating_model_performance = True"
| "chart_event Model_performance_saved = True"
| "chart_event Creating_customer_segmentation = True"
| "chart_event Customer_segmentation_saved = True"
| "chart_event _ = False"

definition derived_names :: "string list" where
  \<comment> \<open>the names \<open>load_and_prepare_data\<close> assigns to, in the order of lines 57 to 101\<close>
  "derived_names =
     [''customer_value_tier'', ''activity_level'', ''tenure_category'', ''Cluster'', ''Archetype'']"

definition cut_closed_left :: "rat list \<Rightarrow> string list \<Rightarrow> f64 \<Rightarrow> string option" where
  \<comment> \<open>Binning by the convention the specification names, closed on the left and open on
      the right: bin \<open>i\<close> holds the values from edge \<open>i\<close> up to, but not including, edge
      \<open>i + 1\<close>. It is not what the script computes; it is here to be compared with it.\<close>
  "cut_closed_left bins labels x =
     (case x of
        Fin v \<Rightarrow>
          (if length (takeWhile (\<lambda>b. b \<le> v) bins) = 0
              \<or> length (takeWhile (\<lambda>b. b \<le> v) bins) = length bins
           then None
           else Some (labels ! (length (takeWhile (\<lambda>b. b \<le> v) bins) - 1)))
      | _ \<Rightarrow> None)"

subsection \<open>Sample inputs\<close>

definition example_rng :: "nat np_random" where
  \<comment> \<open>a small deterministic generator: the state is a counter, the samples are hundredths\<close>
  "example_rng =
     \<lparr>seed = (\<lambda>s. s),
      random_sample = (\<lambda>g n. (map (\<lambda>i. of_nat ((g + 37 * i) mod 100) / 100) [0..<n], g + n))\<rparr>"

definition example_world :: "nat world" where
  "example_world = \<lparr>console = [], rng = 7\<rparr>"

definition other_world :: "nat world" where
  "other_world = \<lparr>console = [Banner], rng = 99\<rparr>"

definition example_table :: table where
  "example_table =
     \<lparr>nrows = 2,
      columns =
        [(''Avg_additional_charges_total'', Float64 [Fin 100, Fin (1205 / 10)]),
         (''Avg_class_frequency_current_month'', Float64 [Fin 0, Fin (5 / 2)]),
         (''Lifetime'', Int64 [3, 60]),
         (''Churn'', Int64 [0, 1])]\<rparr>"

definition other_table :: table where
  \<comment> \<open>as many rows, other values, and a column that is already called \<open>Cluster\<close>\<close>
  "other_table =
     \<lparr>nrows = 2,
      columns =
        [(''Cluster'', Object [Some ''north'', Some ''south'']),
         (''Lifetime'', Int64 [12, 13]),
         (''Avg_class_frequency_current_month'', Float64 [Fin 10, NaN]),
         (''Avg_additional_charges_total'', Float64 [Fin 600, Fin 0])]\<rparr>"

definition no_lifetime_table :: table where
  "no_lifetime_table =
     \<lparr>nrows = 1,
      columns =
        [(''Avg_additional_charges_total'', Float64 [Fin 50]),
         (''Avg_class_frequency_current_month'', Float64 [Fin 1])]\<rparr>"

definition example_loaded :: table where
  "example_loaded =
     \<lparr>nrows = 2,
      columns =
        [(''Avg_additional_charges_total'', Float64 [Fin 100, Fin (1205 / 10)]),
         (''Avg_class_frequency_current_month'', Float64 [Fin 0, Fin (5 / 2)]),
         (''Lifetime'', Int64 [3, 60]),
         (''Churn'', Int64 [0, 1]),
         (''customer_value_tier'', Categorical [Some ''Basic'', Some ''Standard'']),
         (''activity_level'', Categorical [None, Some ''High'']),
         (''tenure_category'', Categorical [Some ''New (0-3m)'', None]),
         (''Cluster'', Int64 [2, 3]),
         (''Archetype'', Object (map archetype_names [2, 3]))]\<rparr>"

definition other_loaded :: table where
  "other_loaded =
     \<lparr>nrows = 2,
      columns =
        [(''Cluster'', Int64 [2, 3]),
         (''Lifetime'', Int64 [12, 13]),
         (''Avg_class_frequency_current_month'', Float64 [Fin 10, NaN]),
         (''Avg_additional_charges_total'', Float64 [Fin 600, Fin 0]),
         (''customer_value_tier'', Categorical [Some ''VIP'', None]),
         (''activity_level'', Categorical [Some ''Super Active'', None]),
         (''tenure_category'', Categorical [Some ''Established (6-12m)'', Some ''Veteran (12m+)'']),
         (''Archetype'', Object (map archetype_names [2, 3]))]\<rparr>"

definition example_builders :: builders where
  \<comment> \<open>the second builder fails\<close>
  "example_builders =
     \<lparr>executive_dashboard_raises = (\<lambda>df. None),
      model_performance_raises = (\<lambda>df. Some (RuntimeError ''savefig'')),
      customer_segmentation_raises = (\<lambda>df names. None)\<rparr>"

section \<open>Evaluating double arithmetic\<close>

lemma floor_rat_numeral:
  "\<lfloor>numeral a / numeral b :: rat\<rfloor> = numeral a div numeral b"
  using floor_divide_of_int_eq [of "numeral a" "numeral b", where ?'a = rat] by simp

lemma floor_rat_neg_numeral:
  "\<lfloor>- (numeral a / numeral b) :: rat\<rfloor> = - numeral a div numeral b"
  using floor_divide_of_int_eq [of "- numeral a" "numeral b", where ?'a = rat] by simp

lemma ceiling_rat_numeral:
  "\<lceil>numeral a / numeral b :: rat\<rceil> = - (- numeral a div numeral b)"
  unfolding ceiling_def by (simp add: floor_rat_neg_numeral)

lemma ceiling_rat_neg_numeral:
  "\<lceil>- (numeral a / numeral b) :: rat\<rceil> = - (numeral a div numeral b)"
  unfolding ceiling_def by (simp add: floor_rat_numeral)

lemmas fl_eval =
  fl_def round_to_multiple_def round_half_even_def nearest_even_def exponent_def pow2_def
  bit_length.simps fadd_def fsub_def fmul_def fdiv_def float_of_int_def py_int_def
  floor_rat_numeral floor_rat_neg_numeral ceiling_rat_numeral ceiling_rat_neg_numeral

lemma actual_churn_value: "actual_churn = 265"
  by (simp add: actual_churn_def total_test_def fl_eval)

lemma true_positive_value: "true_positive = 217"
  by (simp add: true_positive_def actual_churn_value fl_eval)

lemma predicted_churn_value: "predicted_churn = 314"
  by (simp add: predicted_churn_def actual_churn_value total_test_def fl_eval)

lemma probabilities_values:
  "map snd cluster_probabilities =
     [5692549928996307 / 36028797018963968, 7998392938210001 / 36028797018963968,
      7782220156096217 / 36028797018963968, 5530420342410969 / 18014398509481984,
      3494793310839505 / 36028797018963968]"
  by (simp add: cluster_probabilities_def cluster_decimals_def fl_eval)

lemma probabilities_keys: "map fst cluster_probabilities = [0, 1, 2, 3, 4]"
  by (simp add: cluster_probabilities_def cluster_decimals_def)

lemma kahan_sum_probabilities: "kahan_sum (map snd cluster_probabilities) = 1"
  unfolding probabilities_values
  by (simp add: kahan_sum_def kahan_add_def kahan_update_def fl_eval)

lemma normalised_cdf_probabilities:
  "normalised_cdf (map snd cluster_probabilities) =
     [5692549928996307 / 36028797018963968, 3422735716801577 / 9007199254740992,
      5368290755825631 / 9007199254740992, 2033375231757779 / 2251799813685248, 1]"
  unfolding probabilities_values
  by (simp add: normalised_cdf_def divide_all_def cumsum_def fl_eval)

lemma check_p_probabilities:
  "check_p (map fst cluster_probabilities) n (map snd cluster_probabilities) = None"
proof -
  have "fsub (kahan_sum (map snd cluster_probabilities)) 1 = 0"
    by (simp add: kahan_sum_probabilities fl_eval)
  moreover have "\<not> list_ex (\<lambda>x. x < 0) (map snd cluster_probabilities)"
    unfolding probabilities_values by simp
  moreover have "length (map snd cluster_probabilities) = length (map fst cluster_probabilities)"
    by simp
  moreover have "length (map fst cluster_probabilities) \<noteq> 0"
    by (simp add: probabilities_keys)
  ultimately show ?thesis
    by (simp add: check_p_def atol_def pow2_def)
qed

section \<open>Facts about the table, the bands and the loader\<close>

lemma map_of_assign: "map_of (assign cs name c) = (map_of cs)(name \<mapsto> c)"
  by (induction cs name c rule: assign.induct) (auto simp: fun_eq_iff)

lemma assign_fresh: "name \<notin> fst ` set cs \<Longrightarrow> assign cs name c = cs @ [(name, c)]"
  by (induction cs name c rule: assign.induct) auto

lemma keys_assign: "fst ` set (assign cs name c) = insert name (fst ` set cs)"
  by (induction cs name c rule: assign.induct) auto

lemma getitem_setitem:
  "getitem (setitem df name c) m = (if m = name then Inr c else getitem df m)"
  by (simp add: getitem_def setitem_def map_of_assign)

lemma nrows_setitem: "nrows (setitem df name c) = nrows df"
  by (simp add: setitem_def)

lemmas band_defs =
  cut_value_def searchsorted_left_def isna_def
  value_tier_bins_def value_tier_labels_def activity_bins_def activity_labels_def
  tenure_bins_def tenure_labels_def

lemma customer_value_tier_Fin:
  "customer_value_tier (Fin v) =
     (if v \<le> 0 then None
      else if v \<le> 100 then Some ''Basic''
      else if v \<le> 200 then Some ''Standard''
      else if v \<le> 300 then Some ''Premium''
      else if v \<le> 600 then Some ''VIP'' else None)"
  by (simp add: band_defs)

lemma activity_level_Fin:
  "activity_level (Fin v) =
     (if v \<le> 0 then None
      else if v \<le> 1 then Some ''Low''
      else if v \<le> 2 then Some ''Moderate''
      else if v \<le> 3 then Some ''High''
      else if v \<le> 10 then Some ''Super Active'' else None)"
  by (simp add: band_defs)

lemma tenure_category_Fin:
  "tenure_category (Fin v) =
     (if v \<le> 0 then None
      else if v \<le> 3 then Some ''New (0-3m)''
      else if v \<le> 6 then Some ''Developing (3-6m)''
      else if v \<le> 12 then Some ''Established (6-12m)''
      else if v \<le> 50 then Some ''Veteran (12m+)'' else None)"
  by (simp add: band_defs)

lemma band_not_finite:
  "customer_value_tier NaN = None" "customer_value_tier PosInf = None"
  "customer_value_tier NegInf = None"
  "activity_level NaN = None" "activity_level PosInf = None" "activity_level NegInf = None"
  "tenure_category NaN = None" "tenure_category PosInf = None" "tenure_category NegInf = None"
  by (simp_all add: band_defs)

lemma cut_value_range:
  assumes "length labels + 1 = length bins"
  shows "cut_value bins labels x = None \<or> (\<exists>l \<in> set labels. cut_value bins labels x = Some l)"
proof -
  have "searchsorted_left bins x \<le> length bins"
    by (simp add: searchsorted_left_def length_takeWhile_le)
  with assms show ?thesis
    by (auto simp: cut_value_def Let_def)
qed

lemma bind_io_Inr:
  "bind_io m f w = (Inr y, w') \<longleftrightarrow> (\<exists>x w1. m w = (Inr x, w1) \<and> f x w1 = (Inr y, w'))"
  by (auto simp: bind_io_def split: prod.splits sum.splits)

lemma lift_io_Inr: "lift_io r w = (Inr x, w') \<longleftrightarrow> r = Inr x \<and> w' = w"
  by (auto simp: lift_io_def return_io_def raise_io_def split: sum.splits)

lemma print_io_eq:
  "print_io ev w = (r, w') \<longleftrightarrow> r = Inr () \<and> w' = w\<lparr>console := console w @ [ev]\<rparr>"
  by (auto simp: print_io_def)

lemma return_io_eq: "return_io x w = (r, w') \<longleftrightarrow> r = Inr x \<and> w' = w"
  by (auto simp: return_io_def)

lemma np_random_seed_eq:
  "np_random_seed R s w = (r, w') \<longleftrightarrow> r = Inr () \<and> w' = w\<lparr>rng := seed R s\<rparr>"
  by (auto simp: np_random_seed_def)

lemma np_random_choice_eq:
  "np_random_choice R a n p w =
     (case check_p a n p of
        Some e \<Rightarrow> (Inl e, w)
      | None \<Rightarrow>
          (take_all a (map (searchsorted_right (normalised_cdf p))
                         (fst (random_sample R (rng w) n))),
           w\<lparr>rng := snd (random_sample R (rng w) n)\<rparr>))"
  by (simp add: np_random_choice_def Let_def split: option.splits prod.splits)

lemma add_band_Inr:
  "add_band new src bins labels df = Inr df' \<longleftrightarrow>
     (\<exists>x c. getitem df src = Inr x \<and> pd_cut x bins labels = Inr c \<and> df' = setitem df new c)"
  by (auto simp: add_band_def split: sum.splits)

lemma load_body_Inr:
  "load_body R csv w = (Inr (df, names), w') \<longleftrightarrow>
     (\<exists>t x1 x2 x3 c1 c2 c3 ks.
        csv = Inr t
        \<and> getitem t ''Avg_additional_charges_total'' = Inr x1
        \<and> pd_cut x1 value_tier_bins value_tier_labels = Inr c1
        \<and> getitem t ''Avg_class_frequency_current_month'' = Inr x2
        \<and> pd_cut x2 activity_bins activity_labels = Inr c2
        \<and> getitem t ''Lifetime'' = Inr x3
        \<and> pd_cut x3 tenure_bins tenure_labels = Inr c3
        \<and> draw_clusters R (nrows t) = Inr ks
        \<and> df = setitem (setitem (setitem (setitem (setitem t ''customer_value_tier'' c1)
                  ''activity_level'' c2) ''tenure_category'' c3) ''Cluster'' (Int64 ks))
                  ''Archetype'' (Object (map archetype_names ks))
        \<and> names = archetype_names
        \<and> w' = w\<lparr>console := console w
                    @ [Dataset_loaded (nrows t) (length (columns t)), Preparation_completed],
                  rng := snd (random_sample R (seed R 42) (nrows t))\<rparr>)"
  unfolding load_body_def
  by (auto simp: bind_io_Inr lift_io_Inr print_io_eq return_io_eq np_random_seed_eq
        np_random_choice_eq check_p_probabilities add_band_Inr getitem_setitem nrows_setitem
        add_archetype_def series_map_def draw_clusters_def)

lemma load_and_prepare_data_eq:
  "load_and_prepare_data R csv w =
     (case load_body R csv (w\<lparr>console := console w @ [Loading_data]\<rparr>) of
        (Inl e, w1) \<Rightarrow> (Inr None, w1\<lparr>console := console w1 @ [Error_loading_data e]\<rparr>)
      | (Inr r, w1) \<Rightarrow> (Inr (Some r), w1))"
  by (simp add: load_and_prepare_data_def bind_io_def try_except_def print_io_def return_io_def
      split: prod.splits sum.splits)

lemma load_body_outcome:
  "fst (load_body R csv w) = fst (load_body R csv w')"
  unfolding load_body_def
  by (simp add: bind_io_def lift_io_def print_io_def return_io_def raise_io_def
        np_random_seed_def np_random_choice_eq check_p_probabilities
      split: prod.splits sum.splits option.splits)

lemma load_body_console:
  "filter chart_event (console (snd (load_body R csv w))) = filter chart_event (console w)"
  unfolding load_body_def
  by (simp add: bind_io_def lift_io_def print_io_def return_io_def raise_io_def
        np_random_seed_def np_random_choice_eq check_p_probabilities
      split: prod.splits sum.splits option.splits)

lemma load_body_read_error: "load_body R (Inl e) w = (Inl e, w)"
  by (simp add: load_body_def bind_io_def lift_io_def raise_io_def)

lemma load_body_no_lifetime:
  assumes "map_of (columns t) ''Lifetime'' = None"
  shows "\<exists>e. fst (load_body R (Inr t) w) = Inl e"
proof (cases "fst (load_body R (Inr t) w)")
  case (Inl e)
  then show ?thesis by blast
next
  case (Inr r)
  then have "load_body R (Inr t) w = (Inr (fst r, snd r), snd (load_body R (Inr t) w))"
    by (metis prod.collapse)
  then have "\<exists>x. getitem t ''Lifetime'' = Inr x"
    unfolding load_body_Inr by blast
  with assms show ?thesis by (simp add: getitem_def)
qed


lemma main_eq:
  "main R csv B w =
     (case load_and_prepare_data R csv (w\<lparr>console := console w @ [Banner]\<rparr>) of
        (Inl e, w1) \<Rightarrow> (Inl e, w1)
      | (Inr None, w1) \<Rightarrow> (Inr (), w1\<lparr>console := console w1 @ [Failed_to_load_exiting]\<rparr>)
      | (Inr (Some (df, names)), w1) \<Rightarrow>
          try_except (generate_all B df names) (\<lambda>e. print_io (Error_generating e)) w1)"
  by (simp add: main_def bind_io_def print_io_def return_io_def
      split: prod.splits sum.splits option.splits)

lemma generate_all_eq:
  "try_except (generate_all B df names) (\<lambda>e. print_io (Error_generating e)) w =
     (Inr (), w\<lparr>console := console w @
        (case executive_dashboard_raises B df of
           Some e \<Rightarrow> [Creating_executive_dashboard, Error_generating e]
         | None \<Rightarrow>
            (case model_performance_raises B df of
               Some e \<Rightarrow> [Creating_executive_dashboard, Executive_dashboard_saved,
                           Creating_model_performance, Error_generating e]
             | None \<Rightarrow>
                (case customer_segmentation_raises B df names of
                   Some e \<Rightarrow> [Creating_executive_dashboard, Executive_dashboard_saved,
                               Creating_model_performance, Model_performance_saved,
                               Creating_customer_segmentation, Error_generating e]
                 | None \<Rightarrow> [Creating_executive_dashboard, Executive_dashboard_saved,
                             Creating_model_performance, Model_performance_saved,
                             Creating_customer_segmentation, Customer_segmentation_saved,
                             All_generated])))\<rparr>)"
  by (simp add: try_except_def generate_all_def create_executive_dashboard_def
        create_model_performance_chart_def create_customer_segmentation_chart_def builder_def
        bind_io_def print_io_def raise_io_def
      split: option.splits)

lemma main_returns: "fst (main R csv B w) = Inr ()"
  by (simp add: main_eq load_and_prepare_data_eq generate_all_eq
      split: prod.splits sum.splits option.splits)

lemma loader_Some:
  "fst (load_and_prepare_data R csv w) = Inr (Some (df, names)) \<longleftrightarrow>
     fst (load_body R csv w) = Inr (df, names)"
  using load_body_outcome [of R csv "w\<lparr>console := console w @ [Loading_data]\<rparr>" w]
  by (cases "load_body R csv (w\<lparr>console := console w @ [Loading_data]\<rparr>)")
     (auto simp: load_and_prepare_data_eq split: sum.splits)

lemma load_body_fst_Inr:
  assumes "fst (load_body R csv w) = Inr (df, names)"
  shows "load_body R csv w = (Inr (df, names), snd (load_body R csv w))"
  using assms by (metis prod.collapse)

lemma pd_cut_Inr:
  assumes "pd_cut x bins labels = Inr c"
  shows "\<exists>cs. c = Categorical cs
           \<and> (\<forall>l\<in>set cs. l = None \<or> (\<exists>s\<in>set labels. l = Some s))"
proof -
  from assms have len: "length labels + 1 = length bins"
    by (auto simp: pd_cut_def split: if_splits)
  have "\<exists>vs. c = Categorical (map (cut_value bins labels) vs)"
  proof (cases x)
    case (Float64 vs)
    with assms show ?thesis
      by (auto simp: pd_cut_def split: if_splits)
  next
    case (Int64 ns)
    with assms have "c = Categorical (map (cut_value bins labels) (map (\<lambda>n. Fin (of_int n)) ns))"
      by (auto simp: pd_cut_def comp_def split: if_splits)
    then show ?thesis by blast
  next
    case (Object xs)
    with assms show ?thesis
      by (auto simp: pd_cut_def split: if_splits)
  next
    case (Categorical xs)
    with assms show ?thesis
      by (auto simp: pd_cut_def split: if_splits)
  qed
  then obtain vs where "c = Categorical (map (cut_value bins labels) vs)"
    by blast
  with cut_value_range [OF len] show ?thesis
    by auto
qed

lemma archetype_names_values:
  "archetype_names 0 = Some ([CHR 0xF0, CHR 0x9F, CHR 0xA4, CHR 0x9D] @ '' Social Connectors'')"
  "archetype_names 1 = Some ([CHR 0xE2, CHR 0x9A, CHR 0xA1] @ '' Active Independents'')"
  "archetype_names 2 = Some ([CHR 0xF0, CHR 0x9F, CHR 0x8F, CHR 0x86] @ '' Premium Loyalists'')"
  "archetype_names 3 = Some ([CHR 0xF0, CHR 0x9F, CHR 0x9A, CHR 0xA8] @ '' Flight Risks'')"
  "archetype_names 4 = Some ([CHR 0xF0, CHR 0x9F, CHR 0x8E, CHR 0xB2] @ '' Decision Pending'')"
  by (simp_all add: archetype_names_def archetype_list_def)

lemma ids_0_4: "{0..4::int} = {0, 1, 2, 3, 4}"
  by auto

lemma archetype_names_total:
  "\<forall>k\<in>{0..4}. \<exists>s. archetype_names k = Some s \<and> s \<noteq> []"
  unfolding ids_0_4 by (simp add: archetype_names_values)

lemma archetype_names_inj: "inj_on archetype_names {0..4}"
  unfolding ids_0_4 by (simp add: archetype_names_values)

lemma take_all_subset: "take_all a is = Inr xs \<Longrightarrow> set xs \<subseteq> set a"
proof (induction "is" arbitrary: xs)
  case Nil
  then show ?case by simp
next
  case (Cons i "is")
  then show ?case
    by (auto simp: take_at_def split: sum.splits if_splits)
qed

lemma draw_clusters_ids:
  assumes "draw_clusters R n = Inr ks"
  shows "set ks \<subseteq> {0..4}"
proof -
  from assms have "set ks \<subseteq> set [0, 1, 2, 3, 4]"
    unfolding draw_clusters_def probabilities_keys by (rule take_all_subset)
  then show ?thesis by auto
qed

lemma loader_tables:
  assumes "fst (load_and_prepare_data R csv w) = Inr (Some (df, names))"
  shows "\<exists>t x1 x2 x3 c1 c2 c3 ks.
    csv = Inr t
    \<and> getitem t ''Avg_additional_charges_total'' = Inr x1
    \<and> pd_cut x1 value_tier_bins value_tier_labels = Inr c1
    \<and> getitem t ''Avg_class_frequency_current_month'' = Inr x2
    \<and> pd_cut x2 activity_bins activity_labels = Inr c2
    \<and> getitem t ''Lifetime'' = Inr x3
    \<and> pd_cut x3 tenure_bins tenure_labels = Inr c3
    \<and> draw_clusters R (nrows t) = Inr ks
    \<and> df = setitem (setitem (setitem (setitem (setitem t ''customer_value_tier'' c1)
                  ''activity_level'' c2) ''tenure_category'' c3) ''Cluster'' (Int64 ks))
                  ''Archetype'' (Object (map archetype_names ks))
    \<and> names = archetype_names"
proof -
  from assms have "fst (load_body R csv w) = Inr (df, names)"
    by (simp add: loader_Some)
  then have "load_body R csv w = (Inr (df, names), snd (load_body R csv w))"
    by (rule load_body_fst_Inr)
  then show ?thesis
    unfolding load_body_Inr by blast
qed

subsection \<open>The loader on the sample inputs\<close>

lemma take_all_in_range:
  "\<forall>i\<in>set is. i < length a \<Longrightarrow> take_all a is = Inr (map ((!) a) is)"
  by (induction "is") (auto simp: take_at_def)

lemma take_all_Inr_D:
  "take_all a is = Inr xs \<Longrightarrow> (\<forall>i\<in>set is. i < length a) \<and> xs = map ((!) a) is"
proof (induction "is" arbitrary: xs)
  case Nil
  then show ?case by simp
next
  case (Cons i "is")
  then show ?case
    by (auto simp: take_at_def split: sum.splits if_splits)
qed

lemma example_samples:
  "fst (random_sample example_rng (seed example_rng 42) 2) = [42 / 100, 79 / 100]"
  by (simp add: example_rng_def numeral_2_eq_2)

lemma example_draw: "draw_clusters example_rng 2 = Inr [2, 3]"
  unfolding draw_clusters_def normalised_cdf_probabilities probabilities_keys example_samples
  by (simp add: searchsorted_right_def take_at_def)

lemmas pd_cut_eval = pd_cut_def band_defs

lemma example_load:
  "load_and_prepare_data example_rng (Inr example_table) w =
     (Inr (Some (example_loaded, archetype_names)),
      w\<lparr>console := console w @ [Loading_data, Dataset_loaded 2 4, Preparation_completed],
        rng := 44\<rparr>)"
proof -
  have "load_body example_rng (Inr example_table) (w\<lparr>console := console w @ [Loading_data]\<rparr>) =
     (Inr (example_loaded, archetype_names),
      w\<lparr>console := console w @ [Loading_data, Dataset_loaded 2 4, Preparation_completed],
        rng := 44\<rparr>)"
    unfolding load_body_Inr
    by (simp add: example_table_def example_loaded_def getitem_def setitem_def pd_cut_eval
        example_draw) (simp add: example_rng_def)
  then show ?thesis by (simp add: load_and_prepare_data_eq)
qed

lemma other_load:
  "load_and_prepare_data example_rng (Inr other_table) w =
     (Inr (Some (other_loaded, archetype_names)),
      w\<lparr>console := console w @ [Loading_data, Dataset_loaded 2 4, Preparation_completed],
        rng := 44\<rparr>)"
proof -
  have "load_body example_rng (Inr other_table) (w\<lparr>console := console w @ [Loading_data]\<rparr>) =
     (Inr (other_loaded, archetype_names),
      w\<lparr>console := console w @ [Loading_data, Dataset_loaded 2 4, Preparation_completed],
        rng := 44\<rparr>)"
    unfolding load_body_Inr
    by (simp add: other_table_def other_loaded_def getitem_def setitem_def pd_cut_eval
        example_draw) (simp add: example_rng_def)
  then show ?thesis by (simp add: load_and_prepare_data_eq)
qed

lemma cdf_thresholds:
  "normalised_cdf (map snd cluster_probabilities) =
     [fl (158 / 1000), fl (380 / 1000), fl (596 / 1000), fl (903 / 1000), 1]"
  unfolding normalised_cdf_probabilities by (simp add: fl_eval)

lemma cluster_of_uniform_eq:
  "cluster_of_uniform u =
     (if u < fl (158 / 1000) then Inr 0
      else if u < fl (380 / 1000) then Inr 1
      else if u < fl (596 / 1000) then Inr 2
      else if u < fl (903 / 1000) then Inr 3
      else if u < 1 then Inr 4
      else Inl IndexError)"
  unfolding cluster_of_uniform_def cdf_thresholds probabilities_keys
  by (simp add: searchsorted_right_def take_at_def)

lemma draw_clusters_pointwise:
  assumes "draw_clusters R n = Inr ks"
  shows "map Inr ks = map cluster_of_uniform (fst (random_sample R (seed R 42) n))"
proof -
  from take_all_Inr_D [OF assms [unfolded draw_clusters_def]]
  show ?thesis
    by (auto simp: cluster_of_uniform_def take_at_def)
qed

lemma keys_setitem:
  "fst ` set (columns (setitem df name c)) = insert name (fst ` set (columns df))"
  by (simp add: setitem_def keys_assign)

lemma append_five:
  assumes "set derived_names \<inter> fst ` set cs = {}"
  shows "assign (assign (assign (assign (assign cs ''customer_value_tier'' c1)
           ''activity_level'' c2) ''tenure_category'' c3) ''Cluster'' c4) ''Archetype'' c5
         = cs @ [(''customer_value_tier'', c1), (''activity_level'', c2),
                 (''tenure_category'', c3), (''Cluster'', c4), (''Archetype'', c5)]"
proof -
  from assms have fresh:
    "''customer_value_tier'' \<notin> fst ` set cs" "''activity_level'' \<notin> fst ` set cs"
    "''tenure_category'' \<notin> fst ` set cs" "''Cluster'' \<notin> fst ` set cs"
    "''Archetype'' \<notin> fst ` set cs"
    by (auto simp: derived_names_def)
  have 1: "assign cs ''customer_value_tier'' c1 = cs @ [(''customer_value_tier'', c1)]"
    using fresh by (simp add: assign_fresh)
  have 2: "assign (cs @ [(''customer_value_tier'', c1)]) ''activity_level'' c2
             = cs @ [(''customer_value_tier'', c1), (''activity_level'', c2)]"
    using fresh by (simp add: assign_fresh)
  have 3: "assign (cs @ [(''customer_value_tier'', c1), (''activity_level'', c2)])
              ''tenure_category'' c3
             = cs @ [(''customer_value_tier'', c1), (''activity_level'', c2),
                     (''tenure_category'', c3)]"
    using fresh by (simp add: assign_fresh)
  have 4: "assign (cs @ [(''customer_value_tier'', c1), (''activity_level'', c2),
                     (''tenure_category'', c3)]) ''Cluster'' c4
             = cs @ [(''customer_value_tier'', c1), (''activity_level'', c2),
                     (''tenure_category'', c3), (''Cluster'', c4)]"
    using fresh by (simp add: assign_fresh)
  have 5: "assign (cs @ [(''customer_value_tier'', c1), (''activity_level'', c2),
                     (''tenure_category'', c3), (''Cluster'', c4)]) ''Archetype'' c5
             = cs @ [(''customer_value_tier'', c1), (''activity_level'', c2),
                     (''tenure_category'', c3), (''Cluster'', c4), (''Archetype'', c5)]"
    using fresh by (simp add: assign_fresh)
  show ?thesis
    by (simp only: 1 2 3 4 5)
qed

lemma searchsorted_right_below_one:
  "u < 1 \<Longrightarrow> searchsorted_right (normalised_cdf (map snd cluster_probabilities)) u < 5"
  unfolding normalised_cdf_probabilities by (simp add: searchsorted_right_def)

lemma draw_clusters_succeeds:
  assumes "\<forall>u\<in>set (fst (random_sample R (seed R 42) n)). u < 1"
  shows "\<exists>ks. draw_clusters R n = Inr ks"
proof -
  have len: "length (map fst cluster_probabilities) = 5"
    by (simp add: probabilities_keys)
  have "\<forall>i\<in>set (map (searchsorted_right (normalised_cdf (map snd cluster_probabilities)))
          (fst (random_sample R (seed R 42) n))). i < 5"
    using assms by (auto simp: searchsorted_right_below_one)
  then have "\<forall>i\<in>set (map (searchsorted_right (normalised_cdf (map snd cluster_probabilities)))
          (fst (random_sample R (seed R 42) n))). i < length (map fst cluster_probabilities)"
    by (simp only: len)
  from take_all_in_range [OF this] show ?thesis
    by (simp add: draw_clusters_def)
qed

section \<open>The confusion matrix\<close>

text \<open>
  C9. The four cells of the synthetic confusion matrix, computed from the literals
  1000, 0.265, 0.819 and 0.132 in double arithmetic and truncated by \<open>int\<close>, are
  638, 97, 48 and 217: each is a nonnegative integer and together they make up the
  assumed total of 1000 samples.
\<close>

theorem confusion_matrix_cells:
  "confusion_data = [[638, 97], [48, 217]]
   \<and> 0 \<le> true_negative \<and> 0 \<le> false_positive \<and> 0 \<le> false_negative \<and> 0 \<le> true_positive
   \<and> true_negative + false_positive + false_negative + true_positive = total_test
   \<and> total_test = 1000"
  by (simp add: confusion_data_def true_negative_def false_positive_def false_negative_def
      actual_churn_value true_positive_value predicted_churn_value total_test_def)

section \<open>The weights of the categorical draw\<close>

text \<open>
  C10. The five weights 0.158, 0.222, 0.216, 0.307 and 0.097, as written, sum to
  exactly 1. As doubles their compensated sum is exactly 1 as well, so the checks that
  \<open>np.random.choice\<close> makes on \<open>p\<close> pass for every number \<open>n\<close> of rows: the branch
  that raises for probabilities that do not sum to 1 is never taken, and neither is any
  other check on the arguments.
\<close>

theorem weights_sum_to_one:
  "sum_list (map snd cluster_decimals) = 1
   \<and> kahan_sum (map snd cluster_probabilities) = 1
   \<and> check_p (map fst cluster_probabilities) n (map snd cluster_probabilities) = None"
  by (simp add: kahan_sum_probabilities check_p_probabilities) (simp add: cluster_decimals_def)

section \<open>Values on the edges of the bins\<close>

text \<open>
  C1, as the specification states it, fails. A value equal to an interior breakpoint
  does go to the lower of the two adjacent bins, but that is the convention open on the
  left and closed on the right (pandas' default \<open>right=True\<close>), not the convention
  closed on the left and open on the right: under the latter, additional spend of
  exactly 100 would be \<open>Standard\<close> and a spend of exactly 0 would be \<open>Basic\<close>, while
  the script gives \<open>Basic\<close> and a missing band.
\<close>

theorem closed_left_convention_counterexample:
  "cut_closed_left value_tier_bins value_tier_labels (Fin 100) = Some ''Standard''
   \<and> customer_value_tier (Fin 100) = Some ''Basic''
   \<and> cut_closed_left value_tier_bins value_tier_labels (Fin 0) = Some ''Basic''
   \<and> customer_value_tier (Fin 0) = None"
  by (simp add: cut_closed_left_def band_defs)

text \<open>
  C1, amended. For each of the three binnings a value equal to an interior breakpoint is
  placed in the lower of the two adjacent bins, by the convention open on the left and
  closed on the right: a finite value \<open>v\<close> gets the label of bin \<open>i\<close> exactly when it
  is above edge \<open>i\<close> and at most edge \<open>i + 1\<close>.
\<close>

theorem breakpoint_goes_to_lower_bin:
  "customer_value_tier (Fin 100) = Some ''Basic''
   \<and> customer_value_tier (Fin 200) = Some ''Standard''
   \<and> customer_value_tier (Fin 300) = Some ''Premium''
   \<and> activity_level (Fin 1) = Some ''Low''
   \<and> activity_level (Fin 2) = Some ''Moderate''
   \<and> activity_level (Fin 3) = Some ''High''
   \<and> tenure_category (Fin 3) = Some ''New (0-3m)''
   \<and> tenure_category (Fin 6) = Some ''Developing (3-6m)''
   \<and> tenure_category (Fin 12) = Some ''Established (6-12m)''
   \<and> (customer_value_tier (Fin v) = Some ''Basic'') = (0 < v \<and> v \<le> 100)
   \<and> (customer_value_tier (Fin v) = Some ''Standard'') = (100 < v \<and> v \<le> 200)
   \<and> (customer_value_tier (Fin v) = Some ''Premium'') = (200 < v \<and> v \<le> 300)
   \<and> (customer_value_tier (Fin v) = Some ''VIP'') = (300 < v \<and> v \<le> 600)
   \<and> (activity_level (Fin v) = Some ''Low'') = (0 < v \<and> v \<le> 1)
   \<and> (activity_level (Fin v) = Some ''Moderate'') = (1 < v \<and> v \<le> 2)
   \<and> (activity_level (Fin v) = Some ''High'') = (2 < v \<and> v \<le> 3)
   \<and> (activity_level (Fin v) = Some ''Super Active'') = (3 < v \<and> v \<le> 10)
   \<and> (tenure_category (Fin v) = Some ''New (0-3m)'') = (0 < v \<and> v \<le> 3)
   \<and> (tenure_category (Fin v) = Some ''Developing (3-6m)'') = (3 < v \<and> v \<le> 6)
   \<and> (tenure_category (Fin v) = Some ''Established (6-12m)'') = (6 < v \<and> v \<le> 12)
   \<and> (tenure_category (Fin v) = Some ''Veteran (12m+)'') = (12 < v \<and> v \<le> 50)"
  unfolding customer_value_tier_Fin activity_level_Fin tenure_category_Fin
  by simp

text \<open>
  C3. In each of the three binnings a value equal to the last breakpoint (600, 10, 50)
  is in the top bin, and a value below the first breakpoint or above the last one,
  an infinity included, has a missing band.
\<close>

theorem top_edge_included_outside_missing:
  "customer_value_tier (Fin 600) = Some ''VIP''
   \<and> activity_level (Fin 10) = Some ''Super Active''
   \<and> tenure_category (Fin 50) = Some ''Veteran (12m+)''
   \<and> (v < 0 \<or> 600 < v \<longrightarrow> customer_value_tier (Fin v) = None)
   \<and> (v < 0 \<or> 10 < v \<longrightarrow> activity_level (Fin v) = None)
   \<and> (v < 0 \<or> 50 < v \<longrightarrow> tenure_category (Fin v) = None)
   \<and> customer_value_tier NegInf = None \<and> customer_value_tier PosInf = None
   \<and> activity_level NegInf = None \<and> activity_level PosInf = None
   \<and> tenure_category NegInf = None \<and> tenure_category PosInf = None"
  unfolding customer_value_tier_Fin activity_level_Fin tenure_category_Fin
  by (simp add: band_not_finite)

theorem top_edge_included_outside_missing_witness:
  "((601::rat) < 0 \<or> (600::rat) < 601) \<and> customer_value_tier (Fin 601) = None
   \<and> activity_level (Fin 601) = None \<and> tenure_category (Fin 601) = None
   \<and> (- 1 < (0::rat) \<or> (600::rat) < - 1) \<and> customer_value_tier (Fin (- 1)) = None
   \<and> activity_level (Fin (- 1)) = None \<and> tenure_category (Fin (- 1)) = None"
  using top_edge_included_outside_missing [of 601] top_edge_included_outside_missing [of "- 1"]
  by simp

section \<open>Failures while loading\<close>

text \<open>
  C6. If the \<open>try\<close> block of the loader fails, for whatever reason (in particular
  when \<open>read_csv\<close> raises, or when the table has no \<open>Lifetime\<close> column), the loader
  catches the exception, prints the error line with it and returns the no-data value;
  \<open>main\<close> then prints that it is exiting and returns, and no chart builder has printed
  anything, so none was started.
\<close>

theorem load_failure_aborts:
  assumes "csv = Inl e0
           \<or> (\<exists>t. csv = Inr t \<and> map_of (columns t) ''Lifetime'' = None)
           \<or> (\<exists>e1. fst (load_body R csv w0) = Inl e1)"
  shows "\<exists>e. fst (load_body R csv w0) = Inl e
           \<and> fst (load_and_prepare_data R csv w) = Inr None
           \<and> last (console (snd (load_and_prepare_data R csv w))) = Error_loading_data e
           \<and> fst (main R csv B w) = Inr ()
           \<and> last (console (snd (main R csv B w))) = Failed_to_load_exiting
           \<and> filter chart_event (console (snd (main R csv B w))) = filter chart_event (console w)"
proof -
  from assms obtain e where e: "fst (load_body R csv w0) = Inl e"
    using load_body_read_error [of R _ w0] load_body_no_lifetime [of _ R w0] by fastforce
  have out: "\<And>w1. fst (load_body R csv w1) = Inl e"
    using e load_body_outcome [of R csv w0] by simp
  have loader: "\<And>w1. load_and_prepare_data R csv w1 =
      (Inr None, (snd (load_body R csv (w1\<lparr>console := console w1 @ [Loading_data]\<rparr>)))
         \<lparr>console := console (snd (load_body R csv (w1\<lparr>console := console w1 @ [Loading_data]\<rparr>)))
             @ [Error_loading_data e]\<rparr>)"
  proof -
    fix w1 :: "'a world"
    show "load_and_prepare_data R csv w1 =
      (Inr None, (snd (load_body R csv (w1\<lparr>console := console w1 @ [Loading_data]\<rparr>)))
         \<lparr>console := console (snd (load_body R csv (w1\<lparr>console := console w1 @ [Loading_data]\<rparr>)))
             @ [Error_loading_data e]\<rparr>)"
      using out [of "w1\<lparr>console := console w1 @ [Loading_data]\<rparr>"]
      by (cases "load_body R csv (w1\<lparr>console := console w1 @ [Loading_data]\<rparr>)")
         (simp add: load_and_prepare_data_eq)
  qed
  have chart: "filter chart_event (console (snd (main R csv B w))) = filter chart_event (console w)"
    by (simp add: main_eq loader load_body_console)
  have "last (console (snd (main R csv B w))) = Failed_to_load_exiting"
    by (simp add: main_eq loader)
  moreover have "last (console (snd (load_and_prepare_data R csv w))) = Error_loading_data e"
    by (simp add: loader)
  moreover have "fst (load_and_prepare_data R csv w) = Inr None"
    by (simp add: loader)
  ultimately show ?thesis
    using e chart main_returns [of R csv B w] by blast
qed

theorem load_failure_aborts_witness:
  "map_of (columns no_lifetime_table) ''Lifetime'' = None
   \<and> fst (load_and_prepare_data example_rng (Inr no_lifetime_table) example_world) = Inr None
   \<and> fst (main example_rng (Inr no_lifetime_table) example_builders example_world) = Inr ()
   \<and> last (console (snd (main example_rng (Inr no_lifetime_table) example_builders example_world)))
       = Failed_to_load_exiting
   \<and> filter chart_event
        (console (snd (main example_rng (Inr no_lifetime_table) example_builders example_world)))
       = []"
proof -
  have h: "map_of (columns no_lifetime_table) ''Lifetime'' = None"
    by (simp add: no_lifetime_table_def)
  then have "Inr no_lifetime_table = Inl TypeError
      \<or> (\<exists>t. Inr no_lifetime_table = Inr t \<and> map_of (columns t) ''Lifetime'' = None)
      \<or> (\<exists>e1. fst (load_body example_rng (Inr no_lifetime_table) example_world) = Inl e1)"
    by blast
  from load_failure_aborts [OF this, of example_world example_builders] h show ?thesis
    by (auto simp: example_world_def)
qed




section \<open>The derived columns\<close>

text \<open>
  C2. Whenever the loader returns a table, every entry of its columns
  \<open>customer_value_tier\<close>, \<open>activity_level\<close> and \<open>tenure_category\<close> is one of the four
  labels of that column or missing; no other label occurs in any row.
\<close>

theorem bands_are_labels_or_missing:
  assumes "fst (load_and_prepare_data R csv w) = Inr (Some (df, names))"
  shows "\<exists>c1 c2 c3.
           getitem df ''customer_value_tier'' = Inr (Categorical c1)
           \<and> set c1 \<subseteq> {None, Some ''Basic'', Some ''Standard'', Some ''Premium'', Some ''VIP''}
           \<and> getitem df ''activity_level'' = Inr (Categorical c2)
           \<and> set c2 \<subseteq> {None, Some ''Low'', Some ''Moderate'', Some ''High'', Some ''Super Active''}
           \<and> getitem df ''tenure_category'' = Inr (Categorical c3)
           \<and> set c3 \<subseteq> {None, Some ''New (0-3m)'', Some ''Developing (3-6m)'',
                          Some ''Established (6-12m)'', Some ''Veteran (12m+)''}"
proof -
  from assms have "fst (load_body R csv w) = Inr (df, names)"
    by (simp add: loader_Some)
  then obtain t x1 x2 x3 c1 c2 c3 ks where
    c1: "pd_cut x1 value_tier_bins value_tier_labels = Inr c1" and
    c2: "pd_cut x2 activity_bins activity_labels = Inr c2" and
    c3: "pd_cut x3 tenure_bins tenure_labels = Inr c3" and
    df: "df = setitem (setitem (setitem (setitem (setitem t ''customer_value_tier'' c1)
                  ''activity_level'' c2) ''tenure_category'' c3) ''Cluster'' (Int64 ks))
                  ''Archetype'' (Object (map archetype_names ks))"
    using load_body_fst_Inr load_body_Inr [of R csv w df names] by metis
  from pd_cut_Inr [OF c1] obtain l1 where l1: "c1 = Categorical l1"
    "set l1 \<subseteq> {None, Some ''Basic'', Some ''Standard'', Some ''Premium'', Some ''VIP''}"
    by (auto simp: value_tier_labels_def)
  from pd_cut_Inr [OF c2] obtain l2 where l2: "c2 = Categorical l2"
    "set l2 \<subseteq> {None, Some ''Low'', Some ''Moderate'', Some ''High'', Some ''Super Active''}"
    by (auto simp: activity_labels_def)
  from pd_cut_Inr [OF c3] obtain l3 where l3: "c3 = Categorical l3"
    "set l3 \<subseteq> {None, Some ''New (0-3m)'', Some ''Developing (3-6m)'',
                 Some ''Established (6-12m)'', Some ''Veteran (12m+)''}"
    by (auto simp: tenure_labels_def)
  have "getitem df ''customer_value_tier'' = Inr (Categorical l1)"
    "getitem df ''activity_level'' = Inr (Categorical l2)"
    "getitem df ''tenure_category'' = Inr (Categorical l3)"
    by (simp_all add: df getitem_setitem l1 l2 l3)
  with l1 l2 l3 show ?thesis by blast
qed

theorem bands_are_labels_or_missing_witness:
  "fst (load_and_prepare_data example_rng (Inr example_table) example_world)
     = Inr (Some (example_loaded, archetype_names))
   \<and> (\<exists>c1 c2 c3.
           getitem example_loaded ''customer_value_tier'' = Inr (Categorical c1)
           \<and> set c1 \<subseteq> {None, Some ''Basic'', Some ''Standard'', Some ''Premium'', Some ''VIP''}
           \<and> getitem example_loaded ''activity_level'' = Inr (Categorical c2)
           \<and> set c2 \<subseteq> {None, Some ''Low'', Some ''Moderate'', Some ''High'', Some ''Super Active''}
           \<and> getitem example_loaded ''tenure_category'' = Inr (Categorical c3)
           \<and> set c3 \<subseteq> {None, Some ''New (0-3m)'', Some ''Developing (3-6m)'',
                          Some ''Established (6-12m)'', Some ''Veteran (12m+)''})"
proof -
  have h: "fst (load_and_prepare_data example_rng (Inr example_table) example_world)
     = Inr (Some (example_loaded, archetype_names))"
    by (simp add: example_load)
  from bands_are_labels_or_missing [OF h] h show ?thesis by blast
qed


section \<open>Cluster ids and archetype names\<close>

text \<open>
  C4. The archetype lookup is total and injective on the ids 0 to 4: each id has
  exactly one display name, which is not empty, and two ids never share a name. The
  cluster assignment only takes ids from the keys 0 to 4, so in every table the loader
  returns the \<open>Cluster\<close> column holds ids between 0 and 4 and no entry of the
  \<open>Archetype\<close> column is missing. The draw itself succeeds for every number of rows
  as long as the generator's samples are below 1, as \<open>random_sample\<close> promises.
\<close>

theorem archetype_lookup_total_injective:
  assumes "fst (load_and_prepare_data R csv w) = Inr (Some (df, names))"
  shows "(\<forall>k\<in>{0..4}. \<exists>s. archetype_names k = Some s \<and> s \<noteq> [])
         \<and> inj_on archetype_names {0..4}
         \<and> names = archetype_names
         \<and> (\<exists>ks. getitem df ''Cluster'' = Inr (Int64 ks)
                \<and> set ks \<subseteq> {0..4}
                \<and> getitem df ''Archetype'' = Inr (Object (map archetype_names ks))
                \<and> None \<notin> set (map archetype_names ks))
         \<and> ((\<forall>u\<in>set (fst (random_sample R (seed R 42) n)). u < 1) \<longrightarrow>
                (\<exists>ks. draw_clusters R n = Inr ks \<and> set ks \<subseteq> {0..4}))"
proof -
  from assms obtain t c1 c2 c3 ks where
    ks: "draw_clusters R (nrows t) = Inr ks" and
    df: "df = setitem (setitem (setitem (setitem (setitem t ''customer_value_tier'' c1)
                  ''activity_level'' c2) ''tenure_category'' c3) ''Cluster'' (Int64 ks))
                  ''Archetype'' (Object (map archetype_names ks))" and
    names: "names = archetype_names"
    using loader_tables [OF assms] by blast
  have ids: "set ks \<subseteq> {0..4}"
    using ks by (rule draw_clusters_ids)
  have "None \<notin> set (map archetype_names ks)"
  proof
    assume "None \<in> set (map archetype_names ks)"
    then obtain k where k: "k \<in> set ks" "archetype_names k = None"
      by (auto simp: image_iff)
    with ids have "k \<in> {0..4}" by blast
    with archetype_names_total k(2) show False by force
  qed
  moreover have "getitem df ''Cluster'' = Inr (Int64 ks)"
    "getitem df ''Archetype'' = Inr (Object (map archetype_names ks))"
    by (simp_all add: df getitem_setitem)
  moreover have "(\<forall>u\<in>set (fst (random_sample R (seed R 42) n)). u < 1) \<longrightarrow>
                (\<exists>ks. draw_clusters R n = Inr ks \<and> set ks \<subseteq> {0..4})"
    using draw_clusters_succeeds [of R n] draw_clusters_ids [of R n] by blast
  ultimately show ?thesis
    using ids names archetype_names_total archetype_names_inj by blast
qed

theorem archetype_lookup_total_injective_witness:
  "fst (load_and_prepare_data example_rng (Inr example_table) example_world)
     = Inr (Some (example_loaded, archetype_names))
   \<and> list_all (\<lambda>u. u < 1) (fst (random_sample example_rng (seed example_rng 42) 2))
   \<and> inj_on archetype_names {0..4}
   \<and> (\<exists>ks. getitem example_loaded ''Cluster'' = Inr (Int64 ks)
          \<and> set ks \<subseteq> {0..4}
          \<and> getitem example_loaded ''Archetype'' = Inr (Object (map archetype_names ks))
          \<and> None \<notin> set (map archetype_names ks))
   \<and> (\<exists>ks. draw_clusters example_rng 2 = Inr ks \<and> set ks \<subseteq> {0..4})"
proof -
  have h: "fst (load_and_prepare_data example_rng (Inr example_table) example_world)
     = Inr (Some (example_loaded, archetype_names))"
    by (simp add: example_load)
  have u: "\<forall>u\<in>set (fst (random_sample example_rng (seed example_rng 42) 2)). u < 1"
    unfolding example_samples by simp
  then have "list_all (\<lambda>u. u < 1) (fst (random_sample example_rng (seed example_rng 42) 2))"
    by (simp add: list_all_iff)
  with archetype_lookup_total_injective [OF h, of 2] h u show ?thesis by blast
qed

section \<open>Failures while the charts are generated\<close>

text \<open>
  C7. \<open>main\<close> returns normally whatever happens. The three builders run inside one
  \<open>try\<close> block with one handler: the first exception that escapes a builder is printed
  and ends the generation, so when the second builder raises, the third one is not
  started (its opening line is not printed) and the failure is the last line of the
  console.
\<close>

theorem one_handler_for_all_builders:
  "fst (main R csv B w) = Inr ()
   \<and> (load_and_prepare_data R csv (w\<lparr>console := console w @ [Banner]\<rparr>)
         = (Inr (Some (df, names)), w1) \<longrightarrow>
     (executive_dashboard_raises B df = None \<and> model_performance_raises B df = Some e
          \<longrightarrow> console (snd (main R csv B w)) =
                console w1 @ [Creating_executive_dashboard, Executive_dashboard_saved,
                              Creating_model_performance, Error_generating e])
     \<and> (executive_dashboard_raises B df = Some e
          \<longrightarrow> console (snd (main R csv B w)) =
                console w1 @ [Creating_executive_dashboard, Error_generating e])
     \<and> (executive_dashboard_raises B df = None \<and> model_performance_raises B df = None
          \<and> customer_segmentation_raises B df names = Some e
          \<longrightarrow> console (snd (main R csv B w)) =
                console w1 @ [Creating_executive_dashboard, Executive_dashboard_saved,
                              Creating_model_performance, Model_performance_saved,
                              Creating_customer_segmentation, Error_generating e])
     \<and> (executive_dashboard_raises B df = None \<and> model_performance_raises B df = None
          \<and> customer_segmentation_raises B df names = None
          \<longrightarrow> console (snd (main R csv B w)) =
                console w1 @ [Creating_executive_dashboard, Executive_dashboard_saved,
                              Creating_model_performance, Model_performance_saved,
                              Creating_customer_segmentation, Customer_segmentation_saved,
                              All_generated]))"
  by (simp add: main_returns) (simp add: main_eq generate_all_eq)

theorem one_handler_for_all_builders_witness:
  "load_and_prepare_data example_rng (Inr example_table)
       (example_world\<lparr>console := console example_world @ [Banner]\<rparr>)
     = (Inr (Some (example_loaded, archetype_names)),
        \<lparr>console = [Banner, Loading_data, Dataset_loaded 2 4, Preparation_completed], rng = 44\<rparr>)
   \<and> executive_dashboard_raises example_builders example_loaded = None
   \<and> model_performance_raises example_builders example_loaded = Some (RuntimeError ''savefig'')
   \<and> fst (main example_rng (Inr example_table) example_builders example_world) = Inr ()
   \<and> console (snd (main example_rng (Inr example_table) example_builders example_world)) =
        [Banner, Loading_data, Dataset_loaded 2 4, Preparation_completed,
         Creating_executive_dashboard, Executive_dashboard_saved,
         Creating_model_performance, Error_generating (RuntimeError ''savefig'')]"
proof -
  have h: "load_and_prepare_data example_rng (Inr example_table)
       (example_world\<lparr>console := console example_world @ [Banner]\<rparr>)
     = (Inr (Some (example_loaded, archetype_names)),
        \<lparr>console = [Banner, Loading_data, Dataset_loaded 2 4, Preparation_completed], rng = 44\<rparr>)"
    by (simp add: example_load example_world_def)
  have b: "executive_dashboard_raises example_builders example_loaded = None"
    "model_performance_raises example_builders example_loaded = Some (RuntimeError ''savefig'')"
    by (simp_all add: example_builders_def)
  from one_handler_for_all_builders
         [of example_rng "Inr example_table" example_builders example_world
             example_loaded archetype_names _ "RuntimeError ''savefig''"] h b
  show ?thesis by simp
qed


section \<open>The cluster ids depend on the row count only\<close>

text \<open>
  C5. The generator is seeded with 42 inside the loader, just before the draw. So for
  two runs on tables with the same number of rows, whatever the tables hold and whatever
  the console and the generator state were before, the \<open>Cluster\<close> columns are equal.
  The id of a row is a function of that row's own uniform sample alone: it is the
  position of the sample among the cumulative weights 0.158, 0.380, 0.596, 0.903 and 1
  (as doubles), which is the categorical distribution with the configured weights.
\<close>

theorem cluster_ids_depend_on_row_count_only:
  assumes "fst (load_and_prepare_data R (Inr t1) w1) = Inr (Some (df1, names1))"
    and "fst (load_and_prepare_data R (Inr t2) w2) = Inr (Some (df2, names2))"
    and "nrows t1 = nrows t2"
  shows "(\<exists>ks. getitem df1 ''Cluster'' = Inr (Int64 ks)
            \<and> getitem df2 ''Cluster'' = Inr (Int64 ks)
            \<and> map Inr ks = map cluster_of_uniform (fst (random_sample R (seed R 42) (nrows t1))))
         \<and> cluster_of_uniform u =
             (if u < fl (158 / 1000) then Inr 0
              else if u < fl (380 / 1000) then Inr 1
              else if u < fl (596 / 1000) then Inr 2
              else if u < fl (903 / 1000) then Inr 3
              else if u < 1 then Inr 4
              else Inl IndexError)"
proof -
  from loader_tables [OF assms(1)] obtain a1 a2 a3 ks where
    ks: "draw_clusters R (nrows t1) = Inr ks" and
    df1: "df1 = setitem (setitem (setitem (setitem (setitem t1 ''customer_value_tier'' a1)
                  ''activity_level'' a2) ''tenure_category'' a3) ''Cluster'' (Int64 ks))
                  ''Archetype'' (Object (map archetype_names ks))"
    by auto
  from loader_tables [OF assms(2)] obtain b1 b2 b3 ks' where
    ks': "draw_clusters R (nrows t2) = Inr ks'" and
    df2: "df2 = setitem (setitem (setitem (setitem (setitem t2 ''customer_value_tier'' b1)
                  ''activity_level'' b2) ''tenure_category'' b3) ''Cluster'' (Int64 ks'))
                  ''Archetype'' (Object (map archetype_names ks'))"
    by auto
  from ks ks' assms(3) have same: "ks' = ks" by simp
  have "getitem df1 ''Cluster'' = Inr (Int64 ks)" "getitem df2 ''Cluster'' = Inr (Int64 ks)"
    by (simp_all add: df1 df2 same getitem_setitem)
  with draw_clusters_pointwise [OF ks] cluster_of_uniform_eq show ?thesis
    by blast
qed

theorem cluster_ids_depend_on_row_count_only_witness:
  "fst (load_and_prepare_data example_rng (Inr example_table) example_world)
     = Inr (Some (example_loaded, archetype_names))
   \<and> fst (load_and_prepare_data example_rng (Inr other_table) other_world)
     = Inr (Some (other_loaded, archetype_names))
   \<and> nrows example_table = nrows other_table
   \<and> getitem example_loaded ''Cluster'' = Inr (Int64 [2, 3])
   \<and> getitem other_loaded ''Cluster'' = Inr (Int64 [2, 3])
   \<and> map cluster_of_uniform [42 / 100, 79 / 100] = [Inr 2, Inr 3]"
proof -
  have h1: "fst (load_and_prepare_data example_rng (Inr example_table) example_world)
     = Inr (Some (example_loaded, archetype_names))"
    by (simp add: example_load)
  have h2: "fst (load_and_prepare_data example_rng (Inr other_table) other_world)
     = Inr (Some (other_loaded, archetype_names))"
    by (simp add: other_load)
  have h3: "nrows example_table = nrows other_table"
    by (simp add: example_table_def other_table_def)
  have n: "nrows example_table = 2"
    by (simp add: example_table_def)
  have g: "getitem example_loaded ''Cluster'' = Inr (Int64 [2, 3])"
    by (simp add: example_loaded_def getitem_def)
  from cluster_ids_depend_on_row_count_only [OF h1 h2 h3] g h1 h2 h3
  show ?thesis
    by (auto simp: n example_samples)
qed


section \<open>What the loader adds to the table\<close>

text \<open>
  C8, as the specification states it, fails. The loader assigns five columns, not four:
  on the sample table the result has five columns more than the input. And a column of
  the input does not survive when it bears one of the five names: a loaded \<open>Cluster\<close>
  column of text is replaced by the drawn ids.
\<close>

theorem four_columns_counterexample:
  "fst (load_and_prepare_data example_rng (Inr example_table) example_world)
     = Inr (Some (example_loaded, archetype_names))
   \<and> length (columns example_loaded) = length (columns example_table) + 5
   \<and> fst (load_and_prepare_data example_rng (Inr other_table) other_world)
     = Inr (Some (other_loaded, archetype_names))
   \<and> getitem other_table ''Cluster'' = Inr (Object [Some ''north'', Some ''south''])
   \<and> getitem other_loaded ''Cluster'' = Inr (Int64 [2, 3])"
  by (simp add: example_load other_load)
     (simp add: example_loaded_def example_table_def other_table_def other_loaded_def getitem_def)

text \<open>
  C8, amended. A table the loader returns has the rows of the loaded table and its
  columns together with the five derived ones (value tier, activity level, tenure
  category, cluster id, archetype name). Every column whose name is not one of those
  five is unchanged, and when none of the five names is in the loaded table already,
  the five columns are appended after the loaded ones, in that order.
\<close>

theorem five_columns_added_rest_unchanged:
  assumes "fst (load_and_prepare_data R (Inr t) w) = Inr (Some (df, names))"
  shows "nrows df = nrows t
     \<and> length derived_names = 5 \<and> distinct derived_names
     \<and> fst ` set (columns df) = fst ` set (columns t) \<union> set derived_names
     \<and> (name \<notin> set derived_names \<longrightarrow> getitem df name = getitem t name)
     \<and> (set derived_names \<inter> fst ` set (columns t) = {} \<longrightarrow>
          (\<exists>c1 c2 c3 c4 c5.
             columns df = columns t @
               [(''customer_value_tier'', c1), (''activity_level'', c2),
                (''tenure_category'', c3), (''Cluster'', c4), (''Archetype'', c5)]))"
proof -
  from loader_tables [OF assms] obtain c1 c2 c3 ks where
    df: "df = setitem (setitem (setitem (setitem (setitem t ''customer_value_tier'' c1)
                  ''activity_level'' c2) ''tenure_category'' c3) ''Cluster'' (Int64 ks))
                  ''Archetype'' (Object (map archetype_names ks))"
    by auto
  have rows: "nrows df = nrows t"
    by (simp add: df nrows_setitem)
  have names5: "length derived_names = 5 \<and> distinct derived_names"
    by (simp add: derived_names_def)
  have keys: "fst ` set (columns df) = fst ` set (columns t) \<union> set derived_names"
    unfolding df keys_setitem by (auto simp: derived_names_def)
  have frame: "name \<notin> set derived_names \<longrightarrow> getitem df name = getitem t name"
    by (simp add: df getitem_setitem derived_names_def)
  have app: "set derived_names \<inter> fst ` set (columns t) = {} \<longrightarrow>
          (\<exists>c1 c2 c3 c4 c5.
             columns df = columns t @
               [(''customer_value_tier'', c1), (''activity_level'', c2),
                (''tenure_category'', c3), (''Cluster'', c4), (''Archetype'', c5)])"
  proof
    assume "set derived_names \<inter> fst ` set (columns t) = {}"
    from append_five [OF this]
    have "columns df = columns t @
               [(''customer_value_tier'', c1), (''activity_level'', c2),
                (''tenure_category'', c3), (''Cluster'', Int64 ks),
                (''Archetype'', Object (map archetype_names ks))]"
      by (simp add: df setitem_def)
    then show "\<exists>c1 c2 c3 c4 c5.
             columns df = columns t @
               [(''customer_value_tier'', c1), (''activity_level'', c2),
                (''tenure_category'', c3), (''Cluster'', c4), (''Archetype'', c5)]"
      by blast
  qed
  from rows names5 keys frame app show ?thesis by blast
qed

theorem five_columns_added_rest_unchanged_witness:
  "fst (load_and_prepare_data example_rng (Inr example_table) example_world)
     = Inr (Some (example_loaded, archetype_names))
   \<and> ''Churn'' \<notin> set derived_names
   \<and> set derived_names \<inter> fst ` set (columns example_table) = {}
   \<and> nrows example_loaded = nrows example_table
   \<and> getitem example_loaded ''Churn'' = getitem example_table ''Churn''
   \<and> (\<exists>c1 c2 c3 c4 c5.
         columns example_loaded = columns example_table @
           [(''customer_value_tier'', c1), (''activity_level'', c2),
            (''tenure_category'', c3), (''Cluster'', c4), (''Archetype'', c5)])"
proof -
  have h: "fst (load_and_prepare_data example_rng (Inr example_table) example_world)
     = Inr (Some (example_loaded, archetype_names))"
    by (simp add: example_load)
  have n: "''Churn'' \<notin> set derived_names"
    by (simp add: derived_names_def)
  have d: "set derived_names \<inter> fst ` set (columns example_table) = {}"
    by (simp add: derived_names_def example_table_def)
  from five_columns_added_rest_unchanged [OF h, of "''Churn''"] h n d
  show ?thesis by blast
qed


end
